theory Spec2Isabelle
  imports Complex_Main "HOL-Library.AList"
begin

section \<open>Python values, exceptions and the object store\<close>

text \<open>
  The values the three modules handle. \<open>PList\<close>, \<open>PTuple\<close> and \<open>PDict\<close> are the
  instances of \<open>list\<close>, \<open>tuple\<close> and \<open>dict\<close> (the classes the adapter tests with
  \<open>isinstance\<close>); \<open>PObj c i\<close> is an instance, with identity \<open>i\<close>, of a class \<open>c\<close> that
  is none of these (a message object, a runnable, a float, ...); \<open>PAdapter m n\<close> is an
  instance of \<open>DeepAgentsOllamaAdapter\<close> with its two fields. A dictionary is an
  association list in insertion order; a key is looked up with \<open>map_of\<close> and stored with
  \<open>AList.update\<close>, which replaces the value of a key in place and appends a new key.
  A dictionary of Python has every key once; no theorem below needs that of the list.
\<close>

datatype pyval =
    PNone
  | PBool bool
  | PInt int
  | PStr string
  | PList "pyval list"
  | PTuple "pyval list"
  | PDict "(string \<times> pyval) list"
  | PObj string nat
  | PAdapter (ollama_model: pyval) (model_name: string)

type_synonym pydict = "(string \<times> pyval) list"

text \<open>
  Exceptions, by what the \<open>except\<close> clauses of the repository tell apart: an
  \<open>ImportError\<close> (with its message), or an instance of another subclass of \<open>Exception\<close>
  (class name and message). \<open>KeyboardInterrupt\<close> and \<open>SystemExit\<close>, which are no
  \<open>Exception\<close>s and stop the process, are not failures of a library call and have no
  constructor.
\<close>

datatype exn = ImportError string | OtherError string string

fun str_exn :: "exn \<Rightarrow> string" where
  "str_exn (ImportError m) = m"
| "str_exn (OtherError c m) = m"

fun exn_class :: "exn \<Rightarrow> string" where
  "exn_class (ImportError m) = ''ImportError''"
| "exn_class (OtherError c m) = c"

text \<open>
  The part of the interpreter's state the adapter touches: the dictionaries that hold
  invocation configurations, by address (an address is an index of \<open>heap\<close>, and a new
  object gets the next index), the lines printed so far, and the state \<open>ext\<close> of
  everything outside the repository (the model server, the network).
  A configuration argument is \<open>None\<close> or the address of a dictionary.
\<close>

type_synonym ref = nat

record 'x world =
  heap :: "pydict list"
  stdout :: "string list"
  ext :: 'x

definition py_print :: "string \<Rightarrow> 'x world \<Rightarrow> 'x world" where
  "py_print s w = w\<lparr>stdout := stdout w @ [s]\<rparr>"

text \<open>\<open>dict(config)\<close>: a new dictionary with the items of the one at \<open>r\<close>.\<close>

definition dict_copy :: "ref \<Rightarrow> 'x world \<Rightarrow> ref \<times> 'x world" where
  "dict_copy r w = (length (heap w), w\<lparr>heap := heap w @ [heap w ! r]\<rparr>)"

text \<open>\<open>d[k]\<close> guarded by \<open>k in d\<close>: \<open>None\<close> when the key is not in the dictionary.\<close>

definition dict_lookup :: "ref \<Rightarrow> string \<Rightarrow> 'x world \<Rightarrow> pyval option" where
  "dict_lookup r k w = map_of (heap w ! r) k"

text \<open>\<open>d[k] = v\<close>, on the dictionary at \<open>r\<close>.\<close>

definition dict_setitem :: "ref \<Rightarrow> string \<Rightarrow> pyval \<Rightarrow> 'x world \<Rightarrow> 'x world" where
  "dict_setitem r k v w = w\<lparr>heap := (heap w)[r := AList.update k v (heap w ! r)]\<rparr>"

fun isinstance_list_tuple :: "pyval \<Rightarrow> bool" where
  "isinstance_list_tuple (PList xs) = True"
| "isinstance_list_tuple (PTuple xs) = True"
| "isinstance_list_tuple v = False"

fun isinstance_dict :: "pyval \<Rightarrow> bool" where
  "isinstance_dict (PDict d) = True"
| "isinstance_dict v = False"

section \<open>The adapter: \<open>ollama_adapter.py\<close>\<close>

subsection \<open>\<open>_sanitize_config\<close>\<close>

definition sanitize_config :: "ref option \<Rightarrow> 'x world \<Rightarrow> ref option \<times> 'x world" where
  "sanitize_config config w =
     (case config of
        None \<Rightarrow> (None, w)
      | Some c \<Rightarrow>
          (let (sanitized, w1) = dict_copy c w;
               w2 = (case dict_lookup sanitized ''overwrite'' w1 of
                       None \<Rightarrow> w1
                     | Some overwrite \<Rightarrow>
                         if overwrite \<noteq> PNone \<and> \<not> isinstance_list_tuple overwrite
                         then dict_setitem sanitized ''overwrite'' PNone w1
                         else w1);
               w3 = (case dict_lookup sanitized ''configurable'' w2 of
                       None \<Rightarrow> w2
                     | Some configurable \<Rightarrow>
                         if configurable \<noteq> PNone \<and> \<not> isinstance_dict configurable
                         then dict_setitem sanitized ''configurable'' (PDict []) w2
                         else w2)
           in (Some sanitized, w3)))"

text \<open>
  The dictionary a configuration argument denotes in a state: \<open>None\<close> for Python's
  \<open>None\<close>, the stored dictionary for an address.
\<close>

definition config_value :: "ref option \<Rightarrow> 'x world \<Rightarrow> pydict option" where
  "config_value config w = map_option (\<lambda>r. heap w ! r) config"

subsection \<open>The wrapped client\<close>

text \<open>
  \<open>langchain_ollama.ChatOllama\<close> is not part of the repository: the methods of the
  wrapped client the adapter calls are parameters. Each takes the receiver first, then
  the arguments of the call and the state, and returns the new state with a value or
  the exception it raised. A stream is iterated to its end: the chunks it yielded and
  the exception that ended it, if one did.
\<close>

type_synonym kwargs = "(string \<times> pyval) list"

record 'x chat_ollama =
  client_invoke ::
    "pyval \<Rightarrow> pyval \<Rightarrow> ref option \<Rightarrow> kwargs \<Rightarrow> 'x world \<Rightarrow> (exn + pyval) \<times> 'x world"
  client_stream ::
    "pyval \<Rightarrow> pyval \<Rightarrow> ref option \<Rightarrow> kwargs \<Rightarrow> 'x world
       \<Rightarrow> (pyval list \<times> exn option) \<times> 'x world"
  client_ainvoke ::
    "pyval \<Rightarrow> pyval \<Rightarrow> ref option \<Rightarrow> kwargs \<Rightarrow> 'x world \<Rightarrow> (exn + pyval) \<times> 'x world"
  client_with_config ::
    "pyval \<Rightarrow> ref option \<Rightarrow> kwargs \<Rightarrow> 'x world \<Rightarrow> (exn + pyval) \<times> 'x world"

text \<open>\<open>f"{type(x)}"\<close>: the class name between \<open><class '\<close> and \<open>'>\<close>.\<close>

fun type_name :: "pyval \<Rightarrow> string" where
  "type_name PNone = ''NoneType''"
| "type_name (PBool b) = ''bool''"
| "type_name (PInt i) = ''int''"
| "type_name (PStr s) = ''str''"
| "type_name (PList xs) = ''list''"
| "type_name (PTuple xs) = ''tuple''"
| "type_name (PDict d) = ''dict''"
| "type_name (PObj c i) = c"
| "type_name (PAdapter m n) = ''ollama_adapter.DeepAgentsOllamaAdapter''"

definition type_repr :: "pyval \<Rightarrow> string" where
  "type_repr v = ''<class '' @ [CHR 0x27] @ type_name v @ [CHR 0x27] @ ''>''"

subsection \<open>\<open>invoke\<close>, \<open>stream\<close>, \<open>ainvoke\<close>, \<open>with_config\<close>\<close>

definition invoke ::
  "'x chat_ollama \<Rightarrow> pyval \<Rightarrow> pyval \<Rightarrow> ref option \<Rightarrow> kwargs \<Rightarrow> 'x world
     \<Rightarrow> (exn + pyval) \<times> 'x world" where
  "invoke lib self inp config kwargs w =
     (let w1 = py_print (''[ADAPTER] invoke called with input type: '' @ type_repr inp) w;
          (sanitized_config, w2) = sanitize_config config w1;
          (result, w3) = client_invoke lib (ollama_model self) inp sanitized_config kwargs w2
      in case result of
           Inl e \<Rightarrow> (Inl e, w3)
         | Inr r \<Rightarrow> (Inr r, py_print (''[ADAPTER] invoke returned: '' @ type_repr r) w3))"

text \<open>
  \<open>stream\<close> is a generator: its body runs when the caller iterates it, and
  \<open>yield from\<close> hands every chunk of the client's stream to the caller and lets the
  client's exception through.
\<close>

definition stream ::
  "'x chat_ollama \<Rightarrow> pyval \<Rightarrow> pyval \<Rightarrow> ref option \<Rightarrow> kwargs \<Rightarrow> 'x world
     \<Rightarrow> (pyval list \<times> exn option) \<times> 'x world" where
  "stream lib self inp config kwargs w =
     (let w1 = py_print (''[ADAPTER] stream called with input type: '' @ type_repr inp) w;
          (sanitized_config, w2) = sanitize_config config w1
      in client_stream lib (ollama_model self) inp sanitized_config kwargs w2)"

text \<open>\<open>ainvoke\<close>, awaited to its end.\<close>

definition ainvoke ::
  "'x chat_ollama \<Rightarrow> pyval \<Rightarrow> pyval \<Rightarrow> ref option \<Rightarrow> kwargs \<Rightarrow> 'x world
     \<Rightarrow> (exn + pyval) \<times> 'x world" where
  "ainvoke lib self inp config kwargs w =
     (let (sanitized_config, w1) = sanitize_config config w
      in client_ainvoke lib (ollama_model self) inp sanitized_config kwargs w1)"

text \<open>
  The adapter is a pydantic model (\<open>BaseChatModel\<close>). \<open>__new__\<close> makes an instance
  without running \<open>__init__\<close>, and \<open>__init__\<close> is what creates the set in which
  pydantic's \<open>__setattr__\<close> records every field that is assigned: the assignment of a
  field of such an instance raises \<open>AttributeError\<close>. The message is the one of
  pydantic 2; no theorem depends on it.
\<close>

definition quoted :: "string \<Rightarrow> string" where
  "quoted s = [CHR 0x27] @ s @ [CHR 0x27]"

definition setattr_before_init :: "string \<Rightarrow> string \<Rightarrow> pyval \<Rightarrow> exn + unit" where
  "setattr_before_init cls field v =
     Inl (OtherError ''AttributeError''
            (quoted cls @ '' object has no attribute '' @ quoted ''__pydantic_fields_set__''))"

text \<open>
  \<open>with_config\<close>: the new adapter is made with \<open>__new__\<close>; the right-hand side of the
  first assignment calls the client's \<open>with_config\<close>, whose exception leaves the
  method; then the field \<open>ollama_model\<close> of the new instance is assigned, and only
  after it \<open>model_name\<close>, before the instance is returned.
\<close>

definition with_config ::
  "'x chat_ollama \<Rightarrow> pyval \<Rightarrow> ref option \<Rightarrow> kwargs \<Rightarrow> 'x world
     \<Rightarrow> (exn + pyval) \<times> 'x world" where
  "with_config lib self config kwargs w =
     (let (sanitized_config, w1) = sanitize_config config w;
          (bound, w2) = client_with_config lib (ollama_model self) sanitized_config kwargs w1
      in case bound of
           Inl e \<Rightarrow> (Inl e, w2)
         | Inr m \<Rightarrow>
             (case setattr_before_init ''DeepAgentsOllamaAdapter'' ''ollama_model'' m of
                Inl e \<Rightarrow> (Inl e, w2)
              | Inr u \<Rightarrow> (Inr (PAdapter m (model_name self)), w2)))"

subsection \<open>The sanitized dictionary\<close>

text \<open>
  What the two conditional rewrites do to the copied dictionary, as functions of its
  items; \<open>sanitize_config_Some\<close> below shows that the method stores exactly this
  dictionary at a new address.
\<close>

definition fix_overwrite :: "pydict \<Rightarrow> pydict" where
  "fix_overwrite d =
     (case map_of d ''overwrite'' of
        None \<Rightarrow> d
      | Some v \<Rightarrow> if v \<noteq> PNone \<and> \<not> isinstance_list_tuple v
                  then AList.update ''overwrite'' PNone d else d)"

definition fix_configurable :: "pydict \<Rightarrow> pydict" where
  "fix_configurable d =
     (case map_of d ''configurable'' of
        None \<Rightarrow> d
      | Some v \<Rightarrow> if v \<noteq> PNone \<and> \<not> isinstance_dict v
                  then AList.update ''configurable'' (PDict []) d else d)"

section \<open>The search tool: \<open>agent_deepagents.py\<close>\<close>

text \<open>
  \<open>tavily.TavilyClient\<close> is not part of the repository: its \<open>search\<close> is a parameter,
  which takes the arguments in the order of the call and the state of the world, and
  returns the response or the exception it raised. Of a response the tool reads the
  list under \<open>"results"\<close>, and of an item the strings under \<open>"title"\<close>, \<open>"url"\<close> and
  \<open>"content"\<close>; the dictionaries of the model hold these entries. A string is a list of
  characters, one element for one character of the Python \<open>str\<close>.
\<close>

datatype topic = General | News | Finance

type_synonym item = "(string \<times> string) list"
type_synonym response = "(string \<times> item list) list"

text \<open>\<open>d.get(k, default)\<close>\<close>

definition dict_get :: "('k \<times> 'v) list \<Rightarrow> 'k \<Rightarrow> 'v \<Rightarrow> 'v" where
  "dict_get d k dflt = (case map_of d k of None \<Rightarrow> dflt | Some v \<Rightarrow> v)"

text \<open>\<open>sep.join(xs)\<close>\<close>

fun str_join :: "string \<Rightarrow> string list \<Rightarrow> string" where
  "str_join sep [] = []"
| "str_join sep [x] = x"
| "str_join sep (x # y # ys) = x @ sep @ str_join sep (y # ys)"

definition LF :: char where
  "LF = CHR 0x0A"

text \<open>The body of the loop: the block of one item.\<close>

definition format_item :: "item \<Rightarrow> string" where
  "format_item item =
     (let title = dict_get item ''title'' ''No Title'';
          url = dict_get item ''url'' '''';
          content = dict_get item ''content'' '''';
          content = (if length content > 2000
                     then take 2000 content @ ''... (truncated)''
                     else content)
      in ''**'' @ title @ ''**'' @ [LF] @ ''URL: '' @ url @ [LF] @ content)"

definition internet_search ::
  "(string \<Rightarrow> int \<Rightarrow> bool \<Rightarrow> topic \<Rightarrow> 'w \<Rightarrow> (exn + response) \<times> 'w)
     \<Rightarrow> string \<Rightarrow> int \<Rightarrow> topic \<Rightarrow> bool \<Rightarrow> 'w \<Rightarrow> (exn + string) \<times> 'w" where
  "internet_search tavily_search query max_results topic include_raw_content w =
     (case tavily_search query max_results include_raw_content topic w of
        (Inl e, w') \<Rightarrow> (Inl e, w')
      | (Inr response, w') \<Rightarrow>
          (let results = foldl (\<lambda>results item. results @ [format_item item]) []
                           (dict_get response ''results'' [])
           in (Inr (if results \<noteq> []
                    then str_join ([LF, LF] @ ''---'' @ [LF, LF]) results
                    else ''No results found.''),
               w')))"

section \<open>Memory statistics: \<open>memory_utils.py\<close>\<close>

text \<open>
  \<open>torch\<close> is not part of the repository. A value of \<open>torch\<close> gives, for each call
  \<open>get_memory_stats\<close> makes on the module, what the call returns or raises when it is
  reached (the function makes each call at most once); the argument \<open>import_torch\<close> of
  \<open>get_memory_stats\<close> is the outcome of \<open>import torch\<close>.
\<close>

record torch =
  cuda_is_available :: "exn + bool"
  cuda_memory_allocated :: "exn + int"
  cuda_memory_reserved :: "exn + int"
  cuda_max_memory_allocated :: "exn + int"
  backends_hasattr_mps :: "exn + bool"
  backends_mps_is_available :: "exn + bool"

text \<open>
  The byte counts are integers and \<open>/\<close> is Python's true division, whose result is a
  float. The floats are the type \<open>'f\<close>, and the two divisions the function uses are
  parameters: \<open>int_truediv a b\<close> is \<open>a / b\<close> for two integers, which rounds and which
  raises \<open>OverflowError\<close> when the quotient is too large for a float, and
  \<open>float_truediv x b\<close> is \<open>x / b\<close> for a float and an integer.
\<close>

record 'f arith =
  int_truediv :: "int \<Rightarrow> int \<Rightarrow> exn + 'f"
  float_truediv :: "'f \<Rightarrow> int \<Rightarrow> exn + 'f"

datatype 'f stat = StatStr string | StatNum 'f

type_synonym 'f stats = "(string \<times> 'f stat) list"

text \<open>\<open>count / 1024 / 1024\<close>\<close>

definition to_mb :: "'f arith \<Rightarrow> int \<Rightarrow> exn + 'f" where
  "to_mb ar count =
     (case int_truediv ar count 1024 of
        Inl e \<Rightarrow> Inl e
      | Inr kb \<Rightarrow> float_truediv ar kb 1024)"

text \<open>
  The body of the \<open>try\<close> statement. An exception leaves it at the call or the division
  that raised it; the entries of the dictionary display are evaluated in their order.
\<close>

definition get_memory_stats_try :: "'f arith \<Rightarrow> exn + torch \<Rightarrow> exn + 'f stats" where
  "get_memory_stats_try ar import_torch =
     (case import_torch of
        Inl e \<Rightarrow> Inl e
      | Inr torch \<Rightarrow>
          (case cuda_is_available torch of
             Inl e \<Rightarrow> Inl e
           | Inr True \<Rightarrow>
               (case cuda_memory_allocated torch of
                  Inl e \<Rightarrow> Inl e
                | Inr allocated \<Rightarrow>
               (case to_mb ar allocated of
                  Inl e \<Rightarrow> Inl e
                | Inr allocated_mb \<Rightarrow>
               (case cuda_memory_reserved torch of
                  Inl e \<Rightarrow> Inl e
                | Inr reserved \<Rightarrow>
               (case to_mb ar reserved of
                  Inl e \<Rightarrow> Inl e
                | Inr reserved_mb \<Rightarrow>
               (case cuda_max_memory_allocated torch of
                  Inl e \<Rightarrow> Inl e
                | Inr max_allocated \<Rightarrow>
               (case to_mb ar max_allocated of
                  Inl e \<Rightarrow> Inl e
                | Inr max_allocated_mb \<Rightarrow>
                    Inr [(''backend'', StatStr ''cuda''),
                         (''allocated_mb'', StatNum allocated_mb),
                         (''reserved_mb'', StatNum reserved_mb),
                         (''max_allocated_mb'', StatNum max_allocated_mb)]))))))
           | Inr False \<Rightarrow>
               (case backends_hasattr_mps torch of
                  Inl e \<Rightarrow> Inl e
                | Inr has_mps \<Rightarrow>
                    (case (if has_mps then backends_mps_is_available torch else Inr False) of
                       Inl e \<Rightarrow> Inl e
                     | Inr True \<Rightarrow>
                         Inr [(''backend'', StatStr ''mps''),
                              (''note'',
                                 StatStr ''MPS memory stats limited - Apple Silicon detected'')]
                     | Inr False \<Rightarrow>
                         Inr [(''backend'', StatStr ''cpu''),
                              (''note'', StatStr ''No GPU backend available'')]))))"

text \<open>
  The \<open>try\<close> statement with its two handlers, \<open>except ImportError\<close> before
  \<open>except Exception\<close>; both guard the whole body. The result is \<open>Inl\<close> for an
  exception that leaves the function.
\<close>

definition get_memory_stats :: "'f arith \<Rightarrow> exn + torch \<Rightarrow> exn + 'f stats option" where
  "get_memory_stats ar import_torch =
     (case get_memory_stats_try ar import_torch of
        Inr stats \<Rightarrow> Inr (Some stats)
      | Inl (ImportError m) \<Rightarrow> Inr None
      | Inl (OtherError c m) \<Rightarrow> Inr (Some [(''error'', StatStr (str_exn (OtherError c m)))]))"

section \<open>Example data\<close>

text \<open>
  A state with one configuration, the one of the end-to-end scenario: \<open>"overwrite"\<close> is
  a single object and \<open>"configurable"\<close> a string.
\<close>

definition example_world :: "unit world" where
  "example_world =
     \<lparr>heap = [[(''overwrite'', PObj ''Overwrite'' 7),
               (''configurable'', PStr ''not-a-dict''),
               (''tags'', PList [PStr ''a''])]],
      stdout = [], ext = ()\<rparr>"

text \<open>
  A state with one configuration whose \<open>"overwrite"\<close> is the empty list and whose
  \<open>"configurable"\<close> is a dictionary.
\<close>

definition sequence_world :: "unit world" where
  "sequence_world =
     \<lparr>heap = [[(''overwrite'', PList []),
               (''configurable'', PDict [(''thread_id'', PStr ''t1'')])]],
      stdout = [], ext = ()\<rparr>"

text \<open>A state with one configuration whose \<open>"configurable"\<close> is \<open>None\<close>.\<close>

definition none_world :: "unit world" where
  "none_world = \<lparr>heap = [[(''configurable'', PNone)]], stdout = [], ext = ()\<rparr>"

text \<open>
  A stub client. Its \<open>invoke\<close> is the one of the end-to-end scenario: it asserts that
  the configuration it gets has \<open>None\<close> under \<open>"overwrite"\<close> and the empty dictionary
  under \<open>"configurable"\<close>, and answers with a message.
\<close>

definition stub_client :: "unit chat_ollama" where
  "stub_client =
     \<lparr>client_invoke = (\<lambda>self inp config kwargs w.
        (case config of
           None \<Rightarrow> Inl (OtherError ''AssertionError'' '''')
         | Some r \<Rightarrow>
             if map_of (heap w ! r) ''overwrite'' = Some PNone
                \<and> map_of (heap w ! r) ''configurable'' = Some (PDict [])
             then Inr (PObj ''AIMessage'' 1)
             else Inl (OtherError ''AssertionError'' ''''), w)),
      client_stream = (\<lambda>self inp config kwargs w.
        (([PObj ''AIMessageChunk'' 2, PObj ''AIMessageChunk'' 3], None), w)),
      client_ainvoke = (\<lambda>self inp config kwargs w.
        (Inl (OtherError ''ConnectionError'' ''refused''), w)),
      client_with_config = (\<lambda>self config kwargs w.
        (Inr (PObj ''RunnableBinding'' 4), w))\<rparr>"

definition stub_adapter :: pyval where
  "stub_adapter = PAdapter (PObj ''ChatOllama'' 0) ''gpt-oss:20b''"

text \<open>
  A stub provider: no item for the query \<open>nothing\<close>, and otherwise two items, the
  first with a content of 2001 characters, the second without a title.
\<close>

definition long_item :: item where
  "long_item = [(''title'', ''A''), (''url'', ''http://a''),
                (''content'', replicate 2001 CHR ''x'')]"

definition short_item :: item where
  "short_item = [(''url'', ''http://b''), (''content'', ''short'')]"

definition stub_search ::
  "string \<Rightarrow> int \<Rightarrow> bool \<Rightarrow> topic \<Rightarrow> unit \<Rightarrow> (exn + response) \<times> unit" where
  "stub_search query max_results include_raw_content topic w =
     (if query = ''nothing'' then (Inr [(''results'', [])], w)
      else (Inr [(''results'', [long_item, short_item])], w))"

text \<open>
  Division in the rationals, which is the division of floats on the counts it is used
  with below, and a \<open>torch\<close> that imports, and whose first call fails to load a shared
  library, which Python reports as an \<open>ImportError\<close>.
\<close>

definition exact_arith :: "rat arith" where
  "exact_arith =
     \<lparr>int_truediv = (\<lambda>a b. Inr (of_int a / of_int b)),
      float_truediv = (\<lambda>x b. Inr (x / of_int b))\<rparr>"

definition broken_torch :: torch where
  "broken_torch =
     \<lparr>cuda_is_available = Inl (ImportError ''libcudart.so: cannot open shared object file''),
      cuda_memory_allocated = Inr 0,
      cuda_memory_reserved = Inr 0,
      cuda_max_memory_allocated = Inr 0,
      backends_hasattr_mps = Inr False,
      backends_mps_is_available = Inr False\<rparr>"

section \<open>Properties of \<open>_sanitize_config\<close>\<close>

lemma heap_dict_copy:
  "dict_copy r w = (length (heap w), w\<lparr>heap := heap w @ [heap w ! r]\<rparr>)"
  by (simp add: dict_copy_def)

lemma lookup_new:
  "dict_lookup (length h) k (w\<lparr>heap := h @ [d]\<rparr>) = map_of d k"
  by (simp add: dict_lookup_def)

lemma setitem_new:
  "dict_setitem (length h) k v (w\<lparr>heap := h @ [d]\<rparr>) = w\<lparr>heap := h @ [AList.update k v d]\<rparr>"
  by (simp add: dict_setitem_def)

lemma sanitize_config_Some:
  "sanitize_config (Some c) w =
     (Some (length (heap w)),
      w\<lparr>heap := heap w @ [fix_configurable (fix_overwrite (heap w ! c))]\<rparr>)"
proof -
  let ?d = "heap w ! c"
  let ?w1 = "w\<lparr>heap := heap w @ [?d]\<rparr>"
  let ?w2 = "w\<lparr>heap := heap w @ [fix_overwrite ?d]\<rparr>"
  have step1: "(case dict_lookup (length (heap w)) ''overwrite'' ?w1 of
                  None \<Rightarrow> ?w1
                | Some overwrite \<Rightarrow>
                    if overwrite \<noteq> PNone \<and> \<not> isinstance_list_tuple overwrite
                    then dict_setitem (length (heap w)) ''overwrite'' PNone ?w1
                    else ?w1) = ?w2"
    by (simp add: lookup_new setitem_new fix_overwrite_def split: option.split)
  have step2: "(case dict_lookup (length (heap w)) ''configurable'' ?w2 of
                  None \<Rightarrow> ?w2
                | Some configurable \<Rightarrow>
                    if configurable \<noteq> PNone \<and> \<not> isinstance_dict configurable
                    then dict_setitem (length (heap w)) ''configurable'' (PDict []) ?w2
                    else ?w2)
               = w\<lparr>heap := heap w @ [fix_configurable (fix_overwrite ?d)]\<rparr>"
    by (simp add: lookup_new setitem_new fix_configurable_def split: option.split)
  show ?thesis
    by (simp only: sanitize_config_def option.case heap_dict_copy Let_def prod.case step1 step2)
qed

lemma map_of_fix_overwrite:
  "map_of (fix_overwrite d) k =
     (if k = ''overwrite'' then
        (case map_of d ''overwrite'' of
           None \<Rightarrow> None
         | Some v \<Rightarrow> if v \<noteq> PNone \<and> \<not> isinstance_list_tuple v then Some PNone else Some v)
      else map_of d k)"
  by (simp add: fix_overwrite_def update_conv' split: option.split)

lemma map_of_fix_configurable:
  "map_of (fix_configurable d) k =
     (if k = ''configurable'' then
        (case map_of d ''configurable'' of
           None \<Rightarrow> None
         | Some v \<Rightarrow> if v \<noteq> PNone \<and> \<not> isinstance_dict v then Some (PDict []) else Some v)
      else map_of d k)"
  by (simp add: fix_configurable_def update_conv' split: option.split)

lemma keys_fix_overwrite: "map fst (fix_overwrite d) = map fst d"
  by (auto simp: fix_overwrite_def update_keys split: option.split dest: map_of_SomeD
           intro: rev_image_eqI)

lemma keys_fix_configurable: "map fst (fix_configurable d) = map fst d"
  by (auto simp: fix_configurable_def update_keys split: option.split dest: map_of_SomeD
           intro: rev_image_eqI)

lemma fix_overwrite_id:
  "map_of d ''overwrite'' = None \<or> map_of d ''overwrite'' = Some PNone
     \<or> (\<exists>v. map_of d ''overwrite'' = Some v \<and> isinstance_list_tuple v)
   \<Longrightarrow> fix_overwrite d = d"
  by (auto simp: fix_overwrite_def)

lemma fix_configurable_id:
  "map_of d ''configurable'' = None \<or> map_of d ''configurable'' = Some PNone
     \<or> (\<exists>v. map_of d ''configurable'' = Some v \<and> isinstance_dict v)
   \<Longrightarrow> fix_configurable d = d"
  by (auto simp: fix_configurable_def)

lemma fix_configurable_idem: "fix_configurable (fix_configurable d) = fix_configurable d"
  by (rule fix_configurable_id) (simp add: map_of_fix_configurable split: option.split)

lemma fix_overwrite_fixed:
  "fix_overwrite (fix_configurable (fix_overwrite d)) = fix_configurable (fix_overwrite d)"
  by (rule fix_overwrite_id)
     (simp add: map_of_fix_configurable map_of_fix_overwrite split: option.split)

lemma sanitized_dict_idem:
  "fix_configurable (fix_overwrite (fix_configurable (fix_overwrite d)))
     = fix_configurable (fix_overwrite d)"
  by (simp only: fix_overwrite_fixed fix_configurable_idem)

text \<open>
  C1: when \<open>"overwrite"\<close> is in the configuration with a value that is neither
  \<open>None\<close> nor a list nor a tuple, the sanitized configuration has \<open>None\<close> under
  \<open>"overwrite"\<close>, and so not the original value.
\<close>

theorem sanitize_overwrite_scalar:
  assumes "c < length (heap w)"
    and "map_of (heap w ! c) ''overwrite'' = Some v"
    and "v \<noteq> PNone" and "\<not> isinstance_list_tuple v"
  shows "\<exists>r w'. sanitize_config (Some c) w = (Some r, w')
           \<and> map_of (heap w' ! r) ''overwrite'' = Some PNone
           \<and> map_of (heap w' ! r) ''overwrite'' \<noteq> Some v"
  using assms
  by (simp add: sanitize_config_Some map_of_fix_configurable map_of_fix_overwrite)

theorem sanitize_overwrite_scalar_witness:
  "0 < length (heap example_world)
   \<and> map_of (heap example_world ! 0) ''overwrite'' = Some (PObj ''Overwrite'' 7)
   \<and> PObj ''Overwrite'' 7 \<noteq> PNone
   \<and> \<not> isinstance_list_tuple (PObj ''Overwrite'' 7)
   \<and> (\<exists>r w'. sanitize_config (Some 0) example_world = (Some r, w')
           \<and> map_of (heap w' ! r) ''overwrite'' = Some PNone
           \<and> map_of (heap w' ! r) ''overwrite'' \<noteq> Some (PObj ''Overwrite'' 7))"
proof -
  have h1: "0 < length (heap example_world)"
    by (simp add: example_world_def)
  have h2: "map_of (heap example_world ! 0) ''overwrite'' = Some (PObj ''Overwrite'' 7)"
    by (simp add: example_world_def)
  have h3: "PObj ''Overwrite'' 7 \<noteq> PNone" by simp
  have h4: "\<not> isinstance_list_tuple (PObj ''Overwrite'' 7)" by simp
  from sanitize_overwrite_scalar [OF h1 h2 h3 h4] h1 h2 h3 h4 show ?thesis by blast
qed

text \<open>
  C2, as the code has it: when \<open>"configurable"\<close> is in the configuration, the
  sanitized configuration has under \<open>"configurable"\<close> the same value if that value is
  \<open>None\<close> or a dictionary, and the empty dictionary otherwise.
\<close>

theorem sanitize_configurable:
  assumes "c < length (heap w)"
    and "map_of (heap w ! c) ''configurable'' = Some v"
  shows "\<exists>r w'. sanitize_config (Some c) w = (Some r, w')
           \<and> map_of (heap w' ! r) ''configurable''
               = Some (if v = PNone \<or> isinstance_dict v then v else PDict [])"
  using assms
  by (simp add: sanitize_config_Some map_of_fix_configurable map_of_fix_overwrite)

theorem sanitize_configurable_witness:
  "0 < length (heap example_world)
   \<and> map_of (heap example_world ! 0) ''configurable'' = Some (PStr ''not-a-dict'')
   \<and> (\<exists>r w'. sanitize_config (Some 0) example_world = (Some r, w')
           \<and> map_of (heap w' ! r) ''configurable'' = Some (PDict []))"
proof -
  have h1: "0 < length (heap example_world)"
    by (simp add: example_world_def)
  have h2: "map_of (heap example_world ! 0) ''configurable'' = Some (PStr ''not-a-dict'')"
    by (simp add: example_world_def)
  from sanitize_configurable [OF h1 h2] h1 h2 show ?thesis by simp
qed

text \<open>
  The claim as written also sends \<open>None\<close> under \<open>"configurable"\<close> to the empty
  dictionary; the method tests \<open>configurable is not None\<close> first and leaves \<open>None\<close>
  where it is.
\<close>

theorem sanitize_configurable_None_counterexample:
  "fst (sanitize_config (Some 0) none_world) = Some 1
   \<and> map_of (heap none_world ! 0) ''configurable'' = Some PNone
   \<and> \<not> isinstance_dict PNone
   \<and> map_of (heap (snd (sanitize_config (Some 0) none_world)) ! 1) ''configurable''
       = Some PNone
   \<and> map_of (heap (snd (sanitize_config (Some 0) none_world)) ! 1) ''configurable''
       \<noteq> Some (PDict [])"
  by (simp add: sanitize_config_Some none_world_def fix_overwrite_def fix_configurable_def)

text \<open>
  C4: when \<open>"overwrite"\<close> is in the configuration with a list or a tuple (the empty
  one too), the sanitized configuration has the same value under \<open>"overwrite"\<close>.
\<close>

theorem sanitize_overwrite_sequence:
  assumes "c < length (heap w)"
    and "map_of (heap w ! c) ''overwrite'' = Some v"
    and "isinstance_list_tuple v"
  shows "\<exists>r w'. sanitize_config (Some c) w = (Some r, w')
           \<and> map_of (heap w' ! r) ''overwrite'' = Some v"
  using assms
  by (simp add: sanitize_config_Some map_of_fix_configurable map_of_fix_overwrite)

theorem sanitize_overwrite_sequence_witness:
  "0 < length (heap sequence_world)
   \<and> map_of (heap sequence_world ! 0) ''overwrite'' = Some (PList [])
   \<and> isinstance_list_tuple (PList [])
   \<and> (\<exists>r w'. sanitize_config (Some 0) sequence_world = (Some r, w')
           \<and> map_of (heap w' ! r) ''overwrite'' = Some (PList []))"
proof -
  have h1: "0 < length (heap sequence_world)"
    by (simp add: sequence_world_def)
  have h2: "map_of (heap sequence_world ! 0) ''overwrite'' = Some (PList [])"
    by (simp add: sequence_world_def)
  have h3: "isinstance_list_tuple (PList [])" by simp
  from sanitize_overwrite_sequence [OF h1 h2 h3] h1 h2 h3 show ?thesis by blast
qed

text \<open>
  C5: for a configuration at address \<open>c\<close>, the result is the address of a new
  dictionary; every dictionary of the state before the call, the one at \<open>c\<close> among
  them, is as it was; the new dictionary has the keys of the input, in the same order;
  and at every key other than \<open>"overwrite"\<close> and \<open>"configurable"\<close> it has the value
  of the input. Nothing is printed and the world outside is not touched.
\<close>

theorem sanitize_config_frame:
  assumes "c < length (heap w)"
  shows "\<exists>r w'. sanitize_config (Some c) w = (Some r, w')
           \<and> r = length (heap w) \<and> r \<noteq> c
           \<and> take (length (heap w)) (heap w') = heap w
           \<and> heap w' ! c = heap w ! c
           \<and> map fst (heap w' ! r) = map fst (heap w ! c)
           \<and> fst ` set (heap w' ! r) = fst ` set (heap w ! c)
           \<and> (\<forall>k. k \<noteq> ''overwrite'' \<longrightarrow> k \<noteq> ''configurable''
                  \<longrightarrow> map_of (heap w' ! r) k = map_of (heap w ! c) k)
           \<and> stdout w' = stdout w \<and> ext w' = ext w"
proof -
  let ?d = "fix_configurable (fix_overwrite (heap w ! c))"
  let ?w' = "w\<lparr>heap := heap w @ [?d]\<rparr>"
  have keys: "map fst ?d = map fst (heap w ! c)"
    by (simp only: keys_fix_configurable keys_fix_overwrite)
  have "fst ` set ?d = set (map fst ?d)" by simp
  also have "\<dots> = fst ` set (heap w ! c)" by (simp only: keys) simp
  finally have keyset: "fst ` set ?d = fst ` set (heap w ! c)" .
  have vals: "\<forall>k. k \<noteq> ''overwrite'' \<longrightarrow> k \<noteq> ''configurable''
                 \<longrightarrow> map_of ?d k = map_of (heap w ! c) k"
    by (simp add: map_of_fix_configurable map_of_fix_overwrite)
  have old: "heap ?w' ! c = heap w ! c"
    using assms by (simp add: nth_append)
  have new: "heap ?w' ! length (heap w) = ?d" by simp
  show ?thesis
    using assms keys keyset vals old
    by (simp add: sanitize_config_Some)
qed

theorem sanitize_config_frame_witness:
  "0 < length (heap example_world)
   \<and> (\<exists>r w'. sanitize_config (Some 0) example_world = (Some r, w')
         \<and> r \<noteq> 0
         \<and> heap w' ! 0 = heap example_world ! 0
         \<and> map fst (heap w' ! r) = map fst (heap example_world ! 0)
         \<and> map_of (heap w' ! r) ''tags'' = map_of (heap example_world ! 0) ''tags'')"
proof -
  have h1: "0 < length (heap example_world)"
    by (simp add: example_world_def)
  from sanitize_config_frame [OF h1] show ?thesis
  proof (elim exE conjE)
    fix r w'
    assume res: "sanitize_config (Some 0) example_world = (Some r, w')"
      and fresh: "r \<noteq> 0"
      and old: "heap w' ! 0 = heap example_world ! 0"
      and keys: "map fst (heap w' ! r) = map fst (heap example_world ! 0)"
      and vals: "\<forall>k. k \<noteq> ''overwrite'' \<longrightarrow> k \<noteq> ''configurable''
                   \<longrightarrow> map_of (heap w' ! r) k = map_of (heap example_world ! 0) k"
    from vals have tags:
      "map_of (heap w' ! r) ''tags'' = map_of (heap example_world ! 0) ''tags''"
      by simp
    from fresh old keys tags
    have "r \<noteq> 0
         \<and> heap w' ! 0 = heap example_world ! 0
         \<and> map fst (heap w' ! r) = map fst (heap example_world ! 0)
         \<and> map_of (heap w' ! r) ''tags'' = map_of (heap example_world ! 0) ''tags''"
      by (intro conjI)
    with res have "\<exists>r w'. sanitize_config (Some 0) example_world = (Some r, w')
         \<and> r \<noteq> 0
         \<and> heap w' ! 0 = heap example_world ! 0
         \<and> map fst (heap w' ! r) = map fst (heap example_world ! 0)
         \<and> map_of (heap w' ! r) ''tags'' = map_of (heap example_world ! 0) ''tags''"
      by (intro exI [of _ r] exI [of _ w'] conjI) (rule res, simp_all)
    with h1 show ?thesis by (rule conjI)
  qed
qed

text \<open>
  C6: sanitizing the absent configuration returns \<open>None\<close> itself, allocates no
  dictionary and leaves the state as it was.
\<close>

theorem sanitize_config_None:
  "sanitize_config None w = (None, w)"
  by (simp add: sanitize_config_def)

text \<open>
  C10: sanitizing the result of a sanitization gives a configuration equal to that
  result (a new dictionary with the same items, or \<open>None\<close> again), and leaves the
  first result as it was.
\<close>

theorem sanitize_config_idempotent:
  "(let (r1, w1) = sanitize_config config w;
        (r2, w2) = sanitize_config r1 w1
    in config_value r2 w2 = config_value r1 w1 \<and> config_value r1 w2 = config_value r1 w1)"
proof (cases config)
  case None
  then show ?thesis by (simp add: sanitize_config_def config_value_def)
next
  case (Some c)
  then show ?thesis
    by (simp add: sanitize_config_Some config_value_def sanitized_dict_idem nth_append)
qed

section \<open>Properties of the entry points\<close>

text \<open>
  The end-to-end scenario: \<open>invoke\<close> with \<open>"overwrite"\<close> a single object and
  \<open>"configurable"\<close> a string, against the stub whose assertion is on the configuration
  it receives.
\<close>

lemma invoke_scenario:
  "fst (invoke stub_client stub_adapter (PList []) (Some 0) [] example_world)
     = Inr (PObj ''AIMessage'' 1)"
  by (simp add: invoke_def stub_client_def stub_adapter_def sanitize_config_Some py_print_def
        example_world_def fix_overwrite_def fix_configurable_def)

text \<open>
  \<open>invoke\<close>, \<open>stream\<close> and \<open>ainvoke\<close> sanitize the configuration, call the method of
  the same name of the wrapped client with the input and the keyword arguments as they
  are and the sanitized configuration, and return what the client returns or raises
  (\<open>invoke\<close> prints a line before and, after a return, a line after; \<open>stream\<close> prints a
  line before).
\<close>

lemma invoke_stream_ainvoke_delegate:
  "(let w1 = py_print (''[ADAPTER] invoke called with input type: '' @ type_repr inp) w;
        (sanitized, w2) = sanitize_config config w1
    in fst (invoke lib self inp config kwargs w)
         = fst (client_invoke lib (ollama_model self) inp sanitized kwargs w2))
   \<and> (let w1 = py_print (''[ADAPTER] stream called with input type: '' @ type_repr inp) w;
          (sanitized, w2) = sanitize_config config w1
      in stream lib self inp config kwargs w
           = client_stream lib (ollama_model self) inp sanitized kwargs w2)
   \<and> (let (sanitized, w1) = sanitize_config config w
      in ainvoke lib self inp config kwargs w
           = client_ainvoke lib (ollama_model self) inp sanitized kwargs w1)"
  by (simp add: invoke_def stream_def ainvoke_def Let_def split: prod.split sum.split)

text \<open>
  \<open>with_config\<close> sanitizes the configuration and calls the client's \<open>with_config\<close> with
  it, and then never returns: an exception of the client is passed on, and when the
  client returns, the assignment of the wrapped model raises \<open>AttributeError\<close>.
\<close>

lemma with_config_never_returns:
  "(let (sanitized, w1) = sanitize_config config w;
        (bound, w2) = client_with_config lib (ollama_model self) sanitized kwargs w1
    in with_config lib self config kwargs w
         = (case bound of
              Inl e \<Rightarrow> Inl e
            | Inr m \<Rightarrow>
                map_sum id (\<lambda>u. PAdapter m (model_name self))
                  (setattr_before_init ''DeepAgentsOllamaAdapter'' ''ollama_model'' m), w2))
   \<and> (\<exists>e. fst (with_config lib self config kwargs w) = Inl e)"
  by (simp add: with_config_def setattr_before_init_def Let_def split: prod.split sum.split)

text \<open>
  C3 at \<open>with_config\<close>: with the configuration of the end-to-end scenario and a client
  whose \<open>with_config\<close> returns a runnable, the client is called with the sanitized
  configuration and returns, and the adapter's \<open>with_config\<close> raises
  \<open>AttributeError\<close> where its docstring has it return a new adapter and the claim the
  client's result.
\<close>

theorem with_config_raises:
  "map_sum exn_class id (fst (with_config stub_client stub_adapter (Some 0) [] example_world))
     = Inl ''AttributeError''
   \<and> fst (client_with_config stub_client (ollama_model stub_adapter)
            (fst (sanitize_config (Some 0) example_world)) []
            (snd (sanitize_config (Some 0) example_world)))
     = Inr (PObj ''RunnableBinding'' 4)
   \<and> fst (with_config stub_client stub_adapter None [] example_world)
     \<noteq> fst (client_with_config stub_client (ollama_model stub_adapter) None [] example_world)"
proof (intro conjI)
  show "map_sum exn_class id
          (fst (with_config stub_client stub_adapter (Some 0) [] example_world))
        = Inl ''AttributeError''"
    by (simp add: with_config_def setattr_before_init_def stub_client_def stub_adapter_def
          sanitize_config_Some)
  show "fst (client_with_config stub_client (ollama_model stub_adapter)
               (fst (sanitize_config (Some 0) example_world)) []
               (snd (sanitize_config (Some 0) example_world)))
        = Inr (PObj ''RunnableBinding'' 4)"
    by (simp add: stub_client_def)
  show "fst (with_config stub_client stub_adapter None [] example_world)
        \<noteq> fst (client_with_config stub_client (ollama_model stub_adapter) None []
                 example_world)"
    by (simp add: with_config_def setattr_before_init_def stub_client_def stub_adapter_def
          sanitize_config_def)
qed

section \<open>Properties of \<open>internet_search\<close>\<close>

text \<open>
  The loop appends one block for each item, in the order of the list; when the
  provider returns a response, the tool returns the sentinel for no block and the
  joined blocks otherwise.
\<close>

lemma foldl_append_blocks:
  "foldl (\<lambda>results item. results @ [f item]) acc items = acc @ map f items"
  by (induction items arbitrary: acc) simp_all

lemma internet_search_Inr:
  assumes "tavily_search query max_results include_raw_content topic w = (Inr response, w')"
  shows "internet_search tavily_search query max_results topic include_raw_content w =
           (Inr (if dict_get response ''results'' [] = [] then ''No results found.''
                 else str_join ([LF, LF] @ ''---'' @ [LF, LF])
                        (map format_item (dict_get response ''results'' []))),
            w')"
  using assms by (simp add: internet_search_def foldl_append_blocks)

text \<open>
  A join is its first string followed by every other string after a separator, and
  so the join around one of its strings is the strings before it, each followed by a
  separator, that string, and the strings after it, each after a separator.
\<close>

lemma str_join_Cons:
  "str_join sep (b # ys) = b @ concat (map (\<lambda>y. sep @ y) ys)"
  by (induction ys arbitrary: b) simp_all

lemma str_join_around:
  "str_join sep (xs @ b # ys)
     = concat (map (\<lambda>x. x @ sep) xs) @ b @ concat (map (\<lambda>y. sep @ y) ys)"
proof (induction xs)
  case Nil
  show ?case by (simp add: str_join_Cons)
next
  case (Cons x xs)
  have "str_join sep (x # (xs @ b # ys)) = x @ sep @ str_join sep (xs @ b # ys)"
    by (cases xs) simp_all
  with Cons show ?case by simp
qed

text \<open>
  C7: when the provider returns a response, the output is, for each position \<open>i\<close> of
  the list of items, the blocks of the items before \<open>i\<close>, each followed by the
  separator, then the block of the item at \<open>i\<close>, then the blocks of the items after
  \<open>i\<close>, each after the separator; and the block of the item at \<open>i\<close> is its title
  line, its URL line, and the first 2000 characters of its content followed by the
  marker \<open>... (truncated)\<close> when the content has more than 2000 characters, the
  content as it is when it has 2000 or fewer.
\<close>

theorem search_content_truncation:
  assumes "tavily_search query max_results include_raw_content topic w = (Inr response, w')"
    and "i < length (dict_get response ''results'' [])"
  shows "let items = dict_get response ''results'' [];
             item = items ! i;
             content = dict_get item ''content'' '''';
             sep = [LF, LF] @ ''---'' @ [LF, LF]
         in fst (internet_search tavily_search query max_results topic include_raw_content w)
              = Inr (concat (map (\<lambda>it. format_item it @ sep) (take i items))
                     @ ''**'' @ dict_get item ''title'' ''No Title'' @ ''**'' @ [LF]
                     @ ''URL: '' @ dict_get item ''url'' '''' @ [LF]
                     @ (if 2000 < length content
                        then take 2000 content @ ''... (truncated)''
                        else content)
                     @ concat (map (\<lambda>it. sep @ format_item it) (drop (Suc i) items)))"
proof -
  let ?items = "dict_get response ''results'' []"
  let ?sep = "[LF, LF] @ ''---'' @ [LF, LF]"
  from assms(2) have ne: "?items \<noteq> []" by auto
  have "internet_search tavily_search query max_results topic include_raw_content w =
          (Inr (if ?items = [] then ''No results found.''
                else str_join ?sep (map format_item ?items)), w')"
    using assms(1) by (rule internet_search_Inr)
  with ne have res:
    "fst (internet_search tavily_search query max_results topic include_raw_content w)
       = Inr (str_join ?sep (map format_item ?items))"
    by simp
  have split: "?items = take i ?items @ ?items ! i # drop (Suc i) ?items"
    using assms(2) by (rule id_take_nth_drop)
  have "map format_item ?items
          = map format_item (take i ?items) @ format_item (?items ! i)
              # map format_item (drop (Suc i) ?items)"
    by (subst split) simp
  then have join:
    "str_join ?sep (map format_item ?items)
       = concat (map (\<lambda>it. format_item it @ ?sep) (take i ?items))
         @ format_item (?items ! i)
         @ concat (map (\<lambda>it. ?sep @ format_item it) (drop (Suc i) ?items))"
    by (simp only: str_join_around map_map comp_def)
  have blk: "format_item (?items ! i)
               = ''**'' @ dict_get (?items ! i) ''title'' ''No Title'' @ ''**'' @ [LF]
                 @ ''URL: '' @ dict_get (?items ! i) ''url'' '''' @ [LF]
                 @ (if 2000 < length (dict_get (?items ! i) ''content'' '''')
                    then take 2000 (dict_get (?items ! i) ''content'' '''')
                         @ ''... (truncated)''
                    else dict_get (?items ! i) ''content'' '''')"
    by (simp add: format_item_def Let_def)
  show ?thesis
    unfolding Let_def res join
    by (subst blk) simp
qed

theorem search_content_truncation_witness:
  "stub_search ''python'' 2 False General ()
     = (Inr [(''results'', [long_item, short_item])], ())
   \<and> 0 < length (dict_get [(''results'', [long_item, short_item])] ''results'' [])
   \<and> fst (internet_search stub_search ''python'' 2 General False ())
       = Inr (''**A**'' @ [LF] @ ''URL: http://a'' @ [LF]
              @ replicate 2000 CHR ''x'' @ ''... (truncated)''
              @ [LF, LF] @ ''---'' @ [LF, LF] @ format_item short_item)"
proof -
  have h1: "stub_search ''python'' 2 False General ()
              = (Inr [(''results'', [long_item, short_item])], ())"
    by (simp add: stub_search_def)
  have h2: "0 < length (dict_get [(''results'', [long_item, short_item])] ''results'' [])"
    by (simp add: dict_get_def)
  from search_content_truncation [of stub_search, OF h1 h2]
  have out: "fst (internet_search stub_search ''python'' 2 General False ())
               = Inr (''**A**'' @ [LF] @ ''URL: http://a'' @ [LF]
                      @ replicate 2000 CHR ''x'' @ ''... (truncated)''
                      @ [LF, LF] @ ''---'' @ [LF, LF] @ format_item short_item)"
    by (simp add: dict_get_def long_item_def Let_def)
  from h1 h2 out show ?thesis by (intro conjI)
qed

text \<open>
  C8: when the provider returns a response with no item (or without \<open>"results"\<close>),
  the tool returns \<open>No results found.\<close>, which is not the empty string; with one or
  more items it returns, for each item in the order of the response, the block of the
  title line, the URL line and the content, joined by a blank line, \<open>---\<close> and a blank
  line.
\<close>

theorem search_blocks:
  assumes "tavily_search query max_results include_raw_content topic w = (Inr response, w')"
  shows "fst (internet_search tavily_search query max_results topic include_raw_content w)
           = Inr (if dict_get response ''results'' [] = []
                  then ''No results found.''
                  else str_join ([LF, LF] @ ''---'' @ [LF, LF])
                         (map (\<lambda>item.
                                 ''**'' @ dict_get item ''title'' ''No Title'' @ ''**'' @ [LF]
                                 @ ''URL: '' @ dict_get item ''url'' '''' @ [LF]
                                 @ (if 2000 < length (dict_get item ''content'' '''')
                                    then take 2000 (dict_get item ''content'' '''')
                                         @ ''... (truncated)''
                                    else dict_get item ''content'' ''''))
                              (dict_get response ''results'' [])))
         \<and> ''No results found.'' \<noteq> ''''"
proof -
  have fmt: "format_item =
               (\<lambda>item. ''**'' @ dict_get item ''title'' ''No Title'' @ ''**'' @ [LF]
                        @ ''URL: '' @ dict_get item ''url'' '''' @ [LF]
                        @ (if 2000 < length (dict_get item ''content'' '''')
                           then take 2000 (dict_get item ''content'' '''')
                                @ ''... (truncated)''
                           else dict_get item ''content'' ''''))"
    by (rule ext) (simp add: format_item_def Let_def)
  have "internet_search tavily_search query max_results topic include_raw_content w =
          (Inr (if dict_get response ''results'' [] = [] then ''No results found.''
                else str_join ([LF, LF] @ ''---'' @ [LF, LF])
                       (map format_item (dict_get response ''results'' []))), w')"
    using assms by (rule internet_search_Inr)
  then show ?thesis
    by (simp only: fst_conv fmt) simp
qed

theorem search_blocks_witness:
  "stub_search ''nothing'' 5 False General () = (Inr [(''results'', [])], ())
   \<and> fst (internet_search stub_search ''nothing'' 5 General False ())
       = Inr ''No results found.''
   \<and> stub_search ''python'' 2 False General ()
       = (Inr [(''results'', [long_item, short_item])], ())
   \<and> fst (internet_search stub_search ''python'' 2 General False ())
       = Inr (''**A**'' @ [LF] @ ''URL: http://a'' @ [LF]
              @ replicate 2000 CHR ''x'' @ ''... (truncated)''
              @ [LF, LF] @ ''---'' @ [LF, LF]
              @ ''**No Title**'' @ [LF] @ ''URL: http://b'' @ [LF] @ ''short'')"
proof -
  have h1: "stub_search ''nothing'' 5 False General () = (Inr [(''results'', [])], ())"
    by (simp add: stub_search_def)
  have h2: "stub_search ''python'' 2 False General ()
              = (Inr [(''results'', [long_item, short_item])], ())"
    by (simp add: stub_search_def)
  from search_blocks [of stub_search, OF h1]
  have r1: "fst (internet_search stub_search ''nothing'' 5 General False ())
              = Inr ''No results found.''"
    by (simp add: dict_get_def)
  from search_blocks [of stub_search, OF h2]
  have r2: "fst (internet_search stub_search ''python'' 2 General False ())
              = Inr (''**A**'' @ [LF] @ ''URL: http://a'' @ [LF]
                     @ replicate 2000 CHR ''x'' @ ''... (truncated)''
                     @ [LF, LF] @ ''---'' @ [LF, LF]
                     @ ''**No Title**'' @ [LF] @ ''URL: http://b'' @ [LF] @ ''short'')"
    by (simp add: dict_get_def long_item_def short_item_def)
  from h1 r1 h2 r2 show ?thesis by (intro conjI)
qed

section \<open>Properties of \<open>get_memory_stats\<close>\<close>

text \<open>
  With CUDA available the figures are the byte counts divided by \<open>1024\<close> twice.
\<close>

lemma get_memory_stats_cuda:
  "get_memory_stats exact_arith
     (Inr \<lparr>cuda_is_available = Inr True,
           cuda_memory_allocated = Inr (3 * 1024 * 1024),
           cuda_memory_reserved = Inr (4 * 1024 * 1024),
           cuda_max_memory_allocated = Inr (1024 * 512),
           backends_hasattr_mps = Inr False,
           backends_mps_is_available = Inr False\<rparr>)
     = Inr (Some [(''backend'', StatStr ''cuda''), (''allocated_mb'', StatNum 3),
                  (''reserved_mb'', StatNum 4), (''max_allocated_mb'', StatNum (1 / 2))])"
  by (simp add: get_memory_stats_def get_memory_stats_try_def to_mb_def exact_arith_def)

lemma get_memory_stats_returns: "\<exists>r. get_memory_stats ar import_torch = Inr r"
  by (simp add: get_memory_stats_def split: sum.split exn.split)

text \<open>
  C9, as the code has it: \<open>get_memory_stats\<close> returns a value whatever the import, the
  calls on the module and the divisions do. When the import, or a call the function
  makes on the imported module, raises \<open>ImportError\<close>, it returns \<open>None\<close>; when one
  of them raises another exception, it returns the dictionary with the message of the
  exception under \<open>"error"\<close>, and so it does for a division that raises. In the
  statement, \<open>handled\<close> is this result for an exception, and \<open>ok\<close> an arithmetic
  whose divisions return.
\<close>

theorem get_memory_stats_never_raises:
  "let handled = (\<lambda>e. case e of
                         ImportError m \<Rightarrow> Inr None
                       | OtherError c m \<Rightarrow> Inr (Some [(''error'', StatStr m)]));
       ok = ar\<lparr>int_truediv := (\<lambda>a b. Inr (g a b)), float_truediv := (\<lambda>x b. Inr (h x b))\<rparr>
   in (\<exists>r. get_memory_stats ar import_torch = Inr r)
      \<and> get_memory_stats ar (Inl e) = handled e
      \<and> get_memory_stats ar (Inr (torch\<lparr>cuda_is_available := Inl e\<rparr>)) = handled e
      \<and> get_memory_stats ar (Inr (torch\<lparr>cuda_is_available := Inr True,
                                         cuda_memory_allocated := Inl e\<rparr>))
          = handled e
      \<and> get_memory_stats (ar\<lparr>int_truediv := (\<lambda>a b. Inl e)\<rparr>)
           (Inr (torch\<lparr>cuda_is_available := Inr True, cuda_memory_allocated := Inr a\<rparr>))
          = handled e
      \<and> get_memory_stats ok (Inr (torch\<lparr>cuda_is_available := Inr True,
                                         cuda_memory_allocated := Inr a,
                                         cuda_memory_reserved := Inl e\<rparr>))
          = handled e
      \<and> get_memory_stats ok (Inr (torch\<lparr>cuda_is_available := Inr True,
                                         cuda_memory_allocated := Inr a,
                                         cuda_memory_reserved := Inr b,
                                         cuda_max_memory_allocated := Inl e\<rparr>))
          = handled e
      \<and> get_memory_stats ar (Inr (torch\<lparr>cuda_is_available := Inr False,
                                         backends_hasattr_mps := Inl e\<rparr>))
          = handled e
      \<and> get_memory_stats ar (Inr (torch\<lparr>cuda_is_available := Inr False,
                                         backends_hasattr_mps := Inr True,
                                         backends_mps_is_available := Inl e\<rparr>))
          = handled e"
  unfolding Let_def
  by (intro conjI get_memory_stats_returns)
     (simp_all add: get_memory_stats_def get_memory_stats_try_def to_mb_def split: exn.split)

text \<open>
  The claim as written has every failure inside the library, the import apart,
  reported as a field of the returned dictionary. Here the import succeeds and the
  first call on the module raises an \<open>ImportError\<close>: the handler of \<open>ImportError\<close>
  guards the calls too, and the function returns \<open>None\<close>.
\<close>

theorem get_memory_stats_ImportError_counterexample:
  "get_memory_stats exact_arith (Inr broken_torch) = Inr None
   \<and> get_memory_stats exact_arith (Inr broken_torch)
       \<noteq> Inr (Some [(''error'',
                       StatStr ''libcudart.so: cannot open shared object file'')])"
  by (simp add: get_memory_stats_def get_memory_stats_try_def broken_torch_def)

end
